theory Spec2Isabelle
  imports Complex_Main
begin

section \<open>JavaScript numbers\<close>

text \<open>
  A JavaScript \<open>number\<close> is an IEEE-754 binary64 value: a finite double (kept here as the
  rational it denotes), negative zero, one of the two infinities, or NaN. \<open>Num 0\<close> is
  positive zero. Every arithmetic operation computes the exact rational result and rounds
  it to the nearest double, ties to the even significand.
\<close>

datatype number = Num rat | NegZero | Infinity | NegInfinity | NaN

definition pow2 :: "int \<Rightarrow> rat" where
  "pow2 k = (if 0 \<le> k then 2 ^ nat k else 1 / 2 ^ nat (- k))"

text \<open>The number of binary digits of a natural number.\<close>

fun bitlen :: "nat \<Rightarrow> nat" where
  "bitlen n = (if n = 0 then 0 else Suc (bitlen (n div 2)))"

declare bitlen.simps [simp del]

text \<open>\<open>ilog2 x\<close> is the binary exponent of a positive rational: \<open>2^e \<le> x < 2^(e+1)\<close>.\<close>

definition ilog2 :: "rat \<Rightarrow> int" where
  "ilog2 x =
     (if 1 \<le> x then int (bitlen (nat \<lfloor>x\<rfloor>)) - 1
      else - int (bitlen (nat (\<lceil>1 / x\<rceil> - 1))))"

definition round_half_even :: "rat \<Rightarrow> int" where
  "round_half_even y =
     (let f = \<lfloor>y\<rfloor>; d = y - of_int f
      in if d < 1 / 2 then f
         else if 1 / 2 < d then f + 1
         else if even f then f else f + 1)"

text \<open>
  Rounding of an exact result to binary64: 53 significant bits, the least exponent of a
  normal number is \<open>-1022\<close> (below it the spacing stays \<open>2^-1074\<close>), and a result that
  rounds to \<open>2^1024\<close> or more overflows to an infinity. A non-zero result that rounds to
  zero keeps its sign.
\<close>

definition round_binary64 :: "rat \<Rightarrow> number" where
  "round_binary64 x =
     (if x = 0 then Num 0
      else let a = \<bar>x\<bar>;
               q = max (ilog2 a) (- 1022) - 52;
               m = round_half_even (a / pow2 q);
               r = of_int m * pow2 q
           in if pow2 1024 \<le> r then (if x < 0 then NegInfinity else Infinity)
              else if r = 0 then (if x < 0 then NegZero else Num 0)
              else Num (if x < 0 then - r else r))"

fun is_negative :: "number \<Rightarrow> bool" where
  "is_negative (Num r) = (r < 0)"
| "is_negative NegZero = True"
| "is_negative Infinity = False"
| "is_negative NegInfinity = True"
| "is_negative NaN = False"

fun is_infinite :: "number \<Rightarrow> bool" where
  "is_infinite Infinity = True"
| "is_infinite NegInfinity = True"
| "is_infinite _ = False"

fun is_zero :: "number \<Rightarrow> bool" where
  "is_zero (Num r) = (r = 0)"
| "is_zero NegZero = True"
| "is_zero _ = False"

text \<open>The rational denoted by a finite number (both zeros denote 0).\<close>

fun rat_of :: "number \<Rightarrow> rat" where
  "rat_of (Num r) = r"
| "rat_of _ = 0"

definition signed_zero :: "bool \<Rightarrow> number" where
  "signed_zero neg = (if neg then NegZero else Num 0)"

definition signed_infinity :: "bool \<Rightarrow> number" where
  "signed_infinity neg = (if neg then NegInfinity else Infinity)"

text \<open>The operator \<open>a * b\<close> on numbers.\<close>

definition js_times :: "number \<Rightarrow> number \<Rightarrow> number" where
  "js_times a b =
     (let neg = (is_negative a \<noteq> is_negative b)
      in if a = NaN \<or> b = NaN then NaN
         else if is_infinite a \<or> is_infinite b then
           (if is_zero a \<or> is_zero b then NaN else signed_infinity neg)
         else if is_zero a \<or> is_zero b then signed_zero neg
         else round_binary64 (rat_of a * rat_of b))"

text \<open>The operator \<open>a / b\<close> on numbers.\<close>

definition js_divide :: "number \<Rightarrow> number \<Rightarrow> number" where
  "js_divide a b =
     (let neg = (is_negative a \<noteq> is_negative b)
      in if a = NaN \<or> b = NaN then NaN
         else if is_infinite a then (if is_infinite b then NaN else signed_infinity neg)
         else if is_infinite b then signed_zero neg
         else if is_zero b then (if is_zero a then NaN else signed_infinity neg)
         else if is_zero a then signed_zero neg
         else round_binary64 (rat_of a / rat_of b))"

text \<open>\<open>Math.floor\<close>: the floor of a double is a double; zeros, infinities and NaN are kept.\<close>

fun math_floor :: "number \<Rightarrow> number" where
  "math_floor (Num r) = Num (of_int \<lfloor>r\<rfloor>)"
| "math_floor x = x"

section \<open>Unit conversion\<close>

text \<open>
  \<^verbatim>\<open>static solToLamports(sol: number): number { return Math.floor(sol * 1e9); }\<close>
  \<^verbatim>\<open>static lamportsToSol(lamports: number): number { return lamports / 1e9; }\<close>
\<close>

definition solToLamports :: "number \<Rightarrow> number" where
  "solToLamports sol = math_floor (js_times sol (Num 1000000000))"

definition lamportsToSol :: "number \<Rightarrow> number" where
  "lamportsToSol lamports = js_divide lamports (Num 1000000000)"

section \<open>JavaScript values\<close>

text \<open>
  The values that cross the HTTP boundary (parsed JSON) and the values of untyped
  expressions. An object is its list of properties.
\<close>

datatype jsval =
    JUndefined
  | JNull
  | JBool bool
  | JNumber number
  | JString string
  | JObject "(string \<times> jsval) list"
  | JArray "jsval list"

text \<open>Truthiness, as tested by \<open>!x\<close> and \<open>x || y\<close>.\<close>

fun truthy :: "jsval \<Rightarrow> bool" where
  "truthy JUndefined = False"
| "truthy JNull = False"
| "truthy (JBool b) = b"
| "truthy (JNumber n) = (\<not> is_zero n \<and> n \<noteq> NaN)"
| "truthy (JString s) = (s \<noteq> [])"
| "truthy (JObject kvs) = True"
| "truthy (JArray vs) = True"

text \<open>
  The predicate of \<open>v == null\<close>: the two values whose properties cannot be read.
\<close>

fun nullish :: "jsval \<Rightarrow> bool" where
  "nullish JUndefined = True"
| "nullish JNull = True"
| "nullish v = False"

text \<open>
  An HTTP response as axios hands it over (\<open>response.status\<close>, \<open>response.data\<close>).
\<close>

record http_response =
  status :: nat
  data :: jsval

text \<open>
  Anything can be thrown, and a promise can reject with anything: a thrown value is a
  \<open>jsval\<close>. \<open>new Error(msg)\<close> is an object with the property \<open>message\<close>. The
  \<open>TypeError\<close> of reading property \<open>p\<close> of \<open>undefined\<close> or \<open>null\<close> has the message that
  V8 (Node.js, Chrome) gives it, as in
  \<^verbatim>\<open>Cannot read properties of null (reading 'signature')\<close>.
\<close>

definition Error :: "string \<Rightarrow> jsval" where
  "Error msg = JObject [(''message'', JString msg)]"

definition TypeError :: "jsval \<Rightarrow> string \<Rightarrow> jsval" where
  "TypeError v p =
     Error (''Cannot read properties of ''
            @ (if v = JNull then ''null'' else ''undefined'')
            @ '' (reading '' @ [CHR 0x27] @ p @ [CHR 0x27] @ '')'')"

text \<open>
  \<open>v.p\<close>: reading a property of \<open>undefined\<close> or \<open>null\<close> throws a \<open>TypeError\<close>; an object
  gives the property's value or \<open>undefined\<close>. An object is the list of all its
  properties, inherited ones included. The code reads only the properties \<open>publicKey\<close>,
  \<open>transactions\<close>, \<open>signature\<close>, \<open>recipient\<close>, \<open>lamports\<close>, \<open>response\<close>, \<open>data\<close> and
  \<open>message\<close>, which no primitive value and no array has.
\<close>

fun get_prop :: "jsval \<Rightarrow> string \<Rightarrow> jsval + jsval" where
  "get_prop JUndefined p = Inl (TypeError JUndefined p)"
| "get_prop JNull p = Inl (TypeError JNull p)"
| "get_prop (JObject kvs) p = Inr (case map_of kvs p of None \<Rightarrow> JUndefined | Some v \<Rightarrow> v)"
| "get_prop v p = Inr JUndefined"

text \<open>\<open>v?.p\<close>: as \<open>v.p\<close>, but \<open>undefined\<close> when \<open>v\<close> is \<open>undefined\<close> or \<open>null\<close>.\<close>

fun opt_prop :: "jsval \<Rightarrow> string \<Rightarrow> jsval" where
  "opt_prop (JObject kvs) p = (case map_of kvs p of None \<Rightarrow> JUndefined | Some v \<Rightarrow> v)"
| "opt_prop v p = JUndefined"

section \<open>The environment: identity provider and relayer\<close>

datatype http_method = GET | POST

record request =
  verb :: http_method
  url :: string
  headers :: "(string \<times> string) list"
  body :: "jsval option"

text \<open>
  What happens to a request: the promise rejects without a response (axios itself
  rejects with an error object such as \<open>Error ''Network Error''\<close>; an interceptor or a
  test double can reject with any value), or the relayer responds.
\<close>

datatype transport_outcome = Rejected jsval | Responded http_response

text \<open>
  The signed-in user of the identity provider, if any; \<open>getIdToken\<close> resolves to a token
  or rejects with some value.
\<close>

record firebase_user =
  getIdToken :: "jsval + string"

record world =
  currentUser :: "firebase_user option"
  relayer :: "request \<Rightarrow> transport_outcome"

text \<open>
  axios with its default \<open>validateStatus\<close>: the promise resolves with the response when
  the status is 2xx and rejects otherwise, with an error object whose \<open>message\<close> is
  \<open>Request failed with status code N\<close> and whose \<open>response\<close> is the response.
\<close>

definition digit_char :: "nat \<Rightarrow> char" where
  "digit_char d = ''0123456789'' ! d"

fun decimal :: "nat \<Rightarrow> string" where
  "decimal n = (if n < 10 then [digit_char n] else decimal (n div 10) @ [digit_char (n mod 10)])"

declare decimal.simps [simp del]

definition response_object :: "http_response \<Rightarrow> jsval" where
  "response_object r =
     JObject [(''status'', JNumber (Num (of_nat (status r)))), (''data'', data r)]"

definition AxiosError :: "http_response \<Rightarrow> jsval" where
  "AxiosError r =
     JObject [(''message'', JString (''Request failed with status code '' @ decimal (status r))),
              (''response'', response_object r)]"

definition axios_request :: "(request \<Rightarrow> transport_outcome) \<Rightarrow> request \<Rightarrow> jsval + http_response" where
  "axios_request net req =
     (case net req of
        Rejected e \<Rightarrow> Inl e
      | Responded r \<Rightarrow>
          if 200 \<le> status r \<and> status r < 300 then Inr r else Inl (AxiosError r))"

section \<open>Effects of an asynchronous call\<close>

text \<open>
  A call leaves a trace: the HTTP requests it issued and the lines it wrote with
  \<open>console.error\<close>, both in order. A computation takes the trace so far and gives either
  the value thrown (\<open>Inl\<close>) or the value computed (\<open>Inr\<close>), with the new trace.
\<close>

record effects =
  requests :: "request list"
  console :: "(string \<times> jsval) list"

definition no_effects :: effects where
  "no_effects = \<lparr>requests = [], console = []\<rparr>"

type_synonym 'a io = "effects \<Rightarrow> (jsval + 'a) \<times> effects"

definition io_return :: "'a \<Rightarrow> 'a io" where
  "io_return x = (\<lambda>fx. (Inr x, fx))"

definition io_throw :: "jsval \<Rightarrow> 'a io" where
  "io_throw e = (\<lambda>fx. (Inl e, fx))"

definition io_of :: "jsval + 'a \<Rightarrow> 'a io" where
  "io_of r = (\<lambda>fx. (r, fx))"

definition io_bind :: "'a io \<Rightarrow> ('a \<Rightarrow> 'b io) \<Rightarrow> 'b io" where
  "io_bind m f = (\<lambda>fx. case m fx of (Inl e, fx') \<Rightarrow> (Inl e, fx') | (Inr x, fx') \<Rightarrow> f x fx')"

definition try_catch :: "'a io \<Rightarrow> (jsval \<Rightarrow> 'a io) \<Rightarrow> 'a io" where
  "try_catch m handler =
     (\<lambda>fx. case m fx of (Inl e, fx') \<Rightarrow> handler e fx' | (Inr x, fx') \<Rightarrow> (Inr x, fx'))"

definition console_error :: "string \<Rightarrow> jsval \<Rightarrow> unit io" where
  "console_error label e = (\<lambda>fx. (Inr (), fx\<lparr>console := console fx @ [(label, e)]\<rparr>))"

text \<open>\<open>axios.get(url, {headers})\<close> and \<open>axios.post(url, body, {headers})\<close>.\<close>

definition axios :: "world \<Rightarrow> request \<Rightarrow> http_response io" where
  "axios w req =
     (\<lambda>fx. (axios_request (relayer w) req, fx\<lparr>requests := requests fx @ [req]\<rparr>))"

text \<open>
  \<open>await this.auth.currentUser?.getIdToken()\<close>: \<open>undefined\<close> (here \<open>None\<close>) when nobody
  is signed in.
\<close>

definition token_lookup :: "world \<Rightarrow> jsval + string option" where
  "token_lookup w =
     (case currentUser w of
        None \<Rightarrow> Inr None
      | Some user \<Rightarrow> (case getIdToken user of Inl e \<Rightarrow> Inl e | Inr t \<Rightarrow> Inr (Some t)))"

definition currentUser_getIdToken :: "world \<Rightarrow> string option io" where
  "currentUser_getIdToken w = io_of (token_lookup w)"

text \<open>\<open>!token\<close> is false for a non-empty string only.\<close>

fun token_truthy :: "string option \<Rightarrow> bool" where
  "token_truthy None = False"
| "token_truthy (Some t) = (t \<noteq> [])"

text \<open>The template literal \<open>`Bearer ${token}`\<close>.\<close>

fun bearer :: "string option \<Rightarrow> string" where
  "bearer None = ''Bearer undefined''"
| "bearer (Some t) = ''Bearer '' @ t"

section \<open>The client\<close>

record firebase_config =
  apiKey :: string
  authDomain :: string
  projectId :: string
  storageBucket :: string
  messagingSenderId :: string
  appId :: string
  measurementId :: "string option"

record GaslessSDKConfig =
  relayerUrl :: "string option"
  firebaseConfig :: firebase_config

text \<open>
  The object's private fields \<open>this.relayerUrl\<close> and \<open>this.firebaseApp\<close>; the state of
  \<open>this.auth\<close> (the current user) is part of the \<open>world\<close>.
\<close>

record GaslessSDK =
  this_relayerUrl :: string
  this_firebaseApp :: firebase_config

record TransactionResult =
  success :: bool
  signature :: "jsval option"
  recipient :: "jsval option"
  lamports :: "jsval option"
  error :: "jsval option"

text \<open>\<open>this.relayerUrl = config.relayerUrl || 'https://relayer-backend.onrender.com'\<close>\<close>

definition default_relayerUrl :: string where
  "default_relayerUrl = ''https://relayer-backend.onrender.com''"

definition constructor :: "GaslessSDKConfig \<Rightarrow> GaslessSDK" where
  "constructor config =
     \<lparr>this_relayerUrl =
        (case relayerUrl config of
           None \<Rightarrow> default_relayerUrl
         | Some u \<Rightarrow> if u \<noteq> [] then u else default_relayerUrl),
      this_firebaseApp = firebaseConfig config\<rparr>"

definition getWallet :: "GaslessSDK \<Rightarrow> world \<Rightarrow> (jsval + jsval) \<times> effects" where
  "getWallet sdk w =
     try_catch
       (io_bind (currentUser_getIdToken w) (\<lambda>token.
          if \<not> token_truthy token then io_throw (Error ''User not authenticated'')
          else
            io_bind (axios w \<lparr>verb = GET, url = this_relayerUrl sdk @ ''/me'',
                              headers = [(''Authorization'', bearer token)],
                              body = None\<rparr>) (\<lambda>response.
            io_of (get_prop (data response) ''publicKey''))))
       (\<lambda>err.
          io_bind (console_error ''Error getting wallet:'' err) (\<lambda>_.
          io_return JNull))
       no_effects"

text \<open>
  The expression \<open>error.response?.data?.message || error.message\<close>, for any caught
  value: reading \<open>error.response\<close> throws when \<open>error\<close> is \<open>undefined\<close> or \<open>null\<close>.
  Then the \<open>catch\<close> block of \<open>sendTransaction\<close>, which returns
  \<open>{success: false, error: ...}\<close> unless that expression throws.
\<close>

definition error_text :: "jsval \<Rightarrow> jsval + jsval" where
  "error_text err =
     (case get_prop err ''response'' of
        Inl e \<Rightarrow> Inl e
      | Inr resp \<Rightarrow>
          let m = opt_prop (opt_prop resp ''data'') ''message''
          in if truthy m then Inr m else get_prop err ''message'')"

definition failed :: "jsval \<Rightarrow> jsval + TransactionResult" where
  "failed err =
     (case error_text err of
        Inl e \<Rightarrow> Inl e
      | Inr txt \<Rightarrow>
          Inr \<lparr>success = False, signature = None, recipient = None, lamports = None,
               error = Some txt\<rparr>)"

definition sendTransaction ::
  "GaslessSDK \<Rightarrow> world \<Rightarrow> string \<Rightarrow> number \<Rightarrow> (jsval + TransactionResult) \<times> effects" where
  "sendTransaction sdk w recipientAddress lamportsArg =
     try_catch
       (io_bind (currentUser_getIdToken w) (\<lambda>token.
          if \<not> token_truthy token then io_throw (Error ''User not authenticated'')
          else
            io_bind (axios w \<lparr>verb = POST, url = this_relayerUrl sdk @ ''/relay'',
                              headers = [(''Authorization'', bearer token)],
                              body = Some (JObject [(''to'', JString recipientAddress),
                                                    (''lamports'', JNumber lamportsArg)])\<rparr>)
              (\<lambda>response.
            io_bind (io_of (get_prop (data response) ''signature'')) (\<lambda>sig.
            io_bind (io_of (get_prop (data response) ''recipient'')) (\<lambda>rcp.
            io_bind (io_of (get_prop (data response) ''lamports'')) (\<lambda>lam.
            io_return \<lparr>success = True, signature = Some sig, recipient = Some rcp,
                        lamports = Some lam, error = None\<rparr>))))))
       (\<lambda>err. io_of (failed err))
       no_effects"

definition getTransactionHistory :: "GaslessSDK \<Rightarrow> world \<Rightarrow> (jsval + jsval) \<times> effects" where
  "getTransactionHistory sdk w =
     try_catch
       (io_bind (currentUser_getIdToken w) (\<lambda>token.
          if \<not> token_truthy token then io_throw (Error ''User not authenticated'')
          else
            io_bind (axios w \<lparr>verb = GET, url = this_relayerUrl sdk @ ''/transactions'',
                              headers = [(''Authorization'', bearer token)],
                              body = None\<rparr>) (\<lambda>response.
            io_of (get_prop (data response) ''transactions''))))
       (\<lambda>err.
          io_bind (console_error ''Error getting transaction history:'' err) (\<lambda>_.
          io_return (JArray [])))
       no_effects"

section \<open>Notions used in the statements\<close>

text \<open>A user is signed in and the identity provider hands out the token \<open>tok\<close>.\<close>

definition authenticated :: "world \<Rightarrow> string \<Rightarrow> bool" where
  "authenticated w tok =
     (case currentUser w of
        None \<Rightarrow> False
      | Some user \<Rightarrow> getIdToken user = Inr tok \<and> tok \<noteq> [])"

text \<open>No token is available: nobody is signed in, the lookup fails, or the token is empty.\<close>

definition no_token :: "world \<Rightarrow> bool" where
  "no_token w = (case token_lookup w of Inl e \<Rightarrow> True | Inr t \<Rightarrow> \<not> token_truthy t)"


text \<open>The shape \<open>{success: true, signature, recipient, lamports}\<close>.\<close>

definition success_shape :: "TransactionResult \<Rightarrow> bool" where
  "success_shape r =
     (success r \<and> signature r \<noteq> None \<and> recipient r \<noteq> None \<and> lamports r \<noteq> None
      \<and> error r = None)"

text \<open>
  The declared type \<open>TransactionResult\<close>: \<open>signature\<close>, \<open>recipient\<close> and \<open>error\<close> are
  strings and \<open>lamports\<close> is a number, each of them optional (absent or \<open>undefined\<close>).
\<close>

fun optional_string :: "jsval option \<Rightarrow> bool" where
  "optional_string None = True"
| "optional_string (Some JUndefined) = True"
| "optional_string (Some (JString s)) = True"
| "optional_string (Some v) = False"

fun optional_number :: "jsval option \<Rightarrow> bool" where
  "optional_number None = True"
| "optional_number (Some JUndefined) = True"
| "optional_number (Some (JNumber n)) = True"
| "optional_number (Some v) = False"

definition is_TransactionResult :: "TransactionResult \<Rightarrow> bool" where
  "is_TransactionResult r =
     (optional_string (signature r) \<and> optional_string (recipient r)
      \<and> optional_number (lamports r) \<and> optional_string (error r))"

text \<open>
  A thrown value as the libraries produce it when no response was received: not
  \<open>undefined\<close> or \<open>null\<close>, without a \<open>response\<close>, and with a string (or no) \<open>message\<close>.
\<close>

definition plain_error :: "jsval \<Rightarrow> bool" where
  "plain_error e =
     (\<not> nullish e \<and> nullish (opt_prop e ''response'')
      \<and> optional_string (Some (opt_prop e ''message'')))"

text \<open>
  A response whose body fits the declared types: with a 2xx status the body is absent or
  its \<open>signature\<close> and \<open>recipient\<close> are strings and its \<open>lamports\<close> is a number (each
  possibly missing); with another status a truthy \<open>message\<close> of the body is a string.
\<close>

definition typed_response :: "http_response \<Rightarrow> bool" where
  "typed_response r =
     (if 200 \<le> status r \<and> status r < 300
      then nullish (data r)
           \<or> (optional_string (Some (opt_prop (data r) ''signature''))
              \<and> optional_string (Some (opt_prop (data r) ''recipient''))
              \<and> optional_number (Some (opt_prop (data r) ''lamports'')))
      else (case opt_prop (data r) ''message'' of
              JString msg \<Rightarrow> True
            | m \<Rightarrow> \<not> truthy m))"

text \<open>
  The request that \<open>sendTransaction\<close> hands to \<open>axios.post\<close> when the token is \<open>tok\<close>.
\<close>

definition relay_request :: "GaslessSDK \<Rightarrow> string \<Rightarrow> string \<Rightarrow> number \<Rightarrow> request" where
  "relay_request sdk tok recipientAddress lamportsArg =
     \<lparr>verb = POST, url = this_relayerUrl sdk @ ''/relay'',
      headers = [(''Authorization'', ''Bearer '' @ tok)],
      body = Some (JObject [(''to'', JString recipientAddress),
                            (''lamports'', JNumber lamportsArg)])\<rparr>"

text \<open>The object \<open>{success: false, error: v}\<close>.\<close>

definition failure_result :: "jsval \<Rightarrow> TransactionResult" where
  "failure_result v =
     \<lparr>success = False, signature = None, recipient = None, lamports = None, error = Some v\<rparr>"

text \<open>
  What a caught value other than \<open>undefined\<close> and \<open>null\<close> has to say: the truthy
  \<open>message\<close> in the body of its \<open>response\<close>, if there is one, and its own \<open>message\<close>
  otherwise.
\<close>

definition caught_message :: "jsval \<Rightarrow> jsval" where
  "caught_message e =
     (let m = opt_prop (opt_prop (opt_prop e ''response'') ''data'') ''message''
      in if truthy m then m else opt_prop e ''message'')"

subsection \<open>Sample configurations and environments\<close>

definition sample_firebase_config :: firebase_config where
  "sample_firebase_config =
     \<lparr>apiKey = ''key'', authDomain = ''app.firebaseapp.com'', projectId = ''app'',
      storageBucket = ''app.appspot.com'', messagingSenderId = ''1'', appId = ''1:1:web:1'',
      measurementId = None\<rparr>"

definition sample_config :: GaslessSDKConfig where
  "sample_config = \<lparr>relayerUrl = None, firebaseConfig = sample_firebase_config\<rparr>"

definition sample_sdk :: GaslessSDK where
  "sample_sdk = constructor sample_config"

text \<open>Nobody is signed in (the relayer would answer every request with an empty history).\<close>

definition signed_out :: world where
  "signed_out =
     \<lparr>currentUser = None,
      relayer = (\<lambda>req. Responded \<lparr>status = 200, data = JObject [(''transactions'', JArray [])]\<rparr>)\<rparr>"

text \<open>A user is signed in and has made no transfer yet.\<close>

definition signed_in_no_history :: world where
  "signed_in_no_history =
     \<lparr>currentUser = Some \<lparr>getIdToken = Inr ''tok''\<rparr>,
      relayer = (\<lambda>req. Responded \<lparr>status = 200, data = JObject [(''transactions'', JArray [])]\<rparr>)\<rparr>"

text \<open>A user is signed in and the network is down.\<close>

definition signed_in_offline :: world where
  "signed_in_offline =
     \<lparr>currentUser = Some \<lparr>getIdToken = Inr ''tok''\<rparr>,
      relayer = (\<lambda>req. Rejected (Error ''Network Error''))\<rparr>"

text \<open>A user is signed in and the relayer rejects every request with the given body.\<close>

definition signed_in_rejected :: "jsval \<Rightarrow> world" where
  "signed_in_rejected d =
     \<lparr>currentUser = Some \<lparr>getIdToken = Inr ''tok''\<rparr>,
      relayer = (\<lambda>req. Responded \<lparr>status = 400, data = d\<rparr>)\<rparr>"

text \<open>A user is signed in and the relayer accepts every transfer, echoing it.\<close>

definition signed_in_accepting :: world where
  "signed_in_accepting =
     \<lparr>currentUser = Some \<lparr>getIdToken = Inr ''tok''\<rparr>,
      relayer = (\<lambda>req. Responded \<lparr>status = 200,
                   data = JObject [(''signature'', JString ''sig''),
                                   (''recipient'', opt_prop (case body req of None \<Rightarrow> JNull | Some b \<Rightarrow> b) ''to''),
                                   (''lamports'', opt_prop (case body req of None \<Rightarrow> JNull | Some b \<Rightarrow> b) ''lamports'')]\<rparr>)\<rparr>"

text \<open>
  As \<open>signed_in_offline\<close> for every request the client sends, but a request to some
  other address would be answered.
\<close>

definition signed_in_offline_elsewhere :: world where
  "signed_in_offline_elsewhere =
     \<lparr>currentUser = Some \<lparr>getIdToken = Inr ''tok''\<rparr>,
      relayer = (\<lambda>req. if url req = ''https://example.org/''
                         then Responded \<lparr>status = 200, data = JNull\<rparr>
                         else Rejected (Error ''Network Error''))\<rparr>"

text \<open>A user is signed in and \<open>getIdToken\<close> rejects with the given value.\<close>

definition token_rejected :: "jsval \<Rightarrow> world" where
  "token_rejected v =
     \<lparr>currentUser = Some \<lparr>getIdToken = Inl v\<rparr>,
      relayer = (\<lambda>req. Responded \<lparr>status = 200, data = JObject []\<rparr>)\<rparr>"



text \<open>A configuration that names its own relayer.\<close>

definition custom_config :: GaslessSDKConfig where
  "custom_config =
     \<lparr>relayerUrl = Some ''http://localhost:3000'', firebaseConfig = sample_firebase_config\<rparr>"

section \<open>Symbolic execution of the three calls\<close>

lemmas io_defs = io_return_def io_throw_def io_of_def io_bind_def try_catch_def console_error_def
  axios_def currentUser_getIdToken_def no_effects_def

lemma getWallet_unfold:
  "getWallet sdk w =
     (case token_lookup w of
        Inl e \<Rightarrow> (Inr JNull, \<lparr>requests = [], console = [(''Error getting wallet:'', e)]\<rparr>)
      | Inr token \<Rightarrow>
          if \<not> token_truthy token
          then (Inr JNull, \<lparr>requests = [],
                  console = [(''Error getting wallet:'', Error ''User not authenticated'')]\<rparr>)
          else
            let req = \<lparr>verb = GET, url = this_relayerUrl sdk @ ''/me'',
                       headers = [(''Authorization'', bearer token)], body = None\<rparr>
            in (case axios_request (relayer w) req of
                  Inl e \<Rightarrow> (Inr JNull, \<lparr>requests = [req], console = [(''Error getting wallet:'', e)]\<rparr>)
                | Inr resp \<Rightarrow>
                    (case get_prop (data resp) ''publicKey'' of
                       Inl e \<Rightarrow> (Inr JNull, \<lparr>requests = [req], console = [(''Error getting wallet:'', e)]\<rparr>)
                     | Inr v \<Rightarrow> (Inr v, \<lparr>requests = [req], console = []\<rparr>))))"
  by (simp add: getWallet_def io_defs Let_def split: sum.splits)

lemma getTransactionHistory_unfold:
  "getTransactionHistory sdk w =
     (case token_lookup w of
        Inl e \<Rightarrow> (Inr (JArray []), \<lparr>requests = [], console = [(''Error getting transaction history:'', e)]\<rparr>)
      | Inr token \<Rightarrow>
          if \<not> token_truthy token
          then (Inr (JArray []), \<lparr>requests = [],
                  console = [(''Error getting transaction history:'', Error ''User not authenticated'')]\<rparr>)
          else
            let req = \<lparr>verb = GET, url = this_relayerUrl sdk @ ''/transactions'',
                       headers = [(''Authorization'', bearer token)], body = None\<rparr>
            in (case axios_request (relayer w) req of
                  Inl e \<Rightarrow> (Inr (JArray []), \<lparr>requests = [req], console = [(''Error getting transaction history:'', e)]\<rparr>)
                | Inr resp \<Rightarrow>
                    (case get_prop (data resp) ''transactions'' of
                       Inl e \<Rightarrow> (Inr (JArray []), \<lparr>requests = [req], console = [(''Error getting transaction history:'', e)]\<rparr>)
                     | Inr v \<Rightarrow> (Inr v, \<lparr>requests = [req], console = []\<rparr>))))"
  by (simp add: getTransactionHistory_def io_defs Let_def split: sum.splits)

lemma sendTransaction_unfold:
  "sendTransaction sdk w recipientAddress lamportsArg =
     (case token_lookup w of
        Inl e \<Rightarrow> (failed e, \<lparr>requests = [], console = []\<rparr>)
      | Inr token \<Rightarrow>
          if \<not> token_truthy token
          then (failed (Error ''User not authenticated''), \<lparr>requests = [], console = []\<rparr>)
          else
            let req = \<lparr>verb = POST, url = this_relayerUrl sdk @ ''/relay'',
                       headers = [(''Authorization'', bearer token)],
                       body = Some (JObject [(''to'', JString recipientAddress),
                                             (''lamports'', JNumber lamportsArg)])\<rparr>
            in (case axios_request (relayer w) req of
                  Inl e \<Rightarrow> (failed e, \<lparr>requests = [req], console = []\<rparr>)
                | Inr resp \<Rightarrow>
                    (case get_prop (data resp) ''signature'' of
                       Inl e \<Rightarrow> (failed e, \<lparr>requests = [req], console = []\<rparr>)
                     | Inr sig \<Rightarrow>
                    (case get_prop (data resp) ''recipient'' of
                       Inl e \<Rightarrow> (failed e, \<lparr>requests = [req], console = []\<rparr>)
                     | Inr rcp \<Rightarrow>
                    (case get_prop (data resp) ''lamports'' of
                       Inl e \<Rightarrow> (failed e, \<lparr>requests = [req], console = []\<rparr>)
                     | Inr lam \<Rightarrow>
                         (Inr \<lparr>success = True, signature = Some sig, recipient = Some rcp,
                               lamports = Some lam, error = None\<rparr>,
                          \<lparr>requests = [req], console = []\<rparr>))))))"
  by (simp add: sendTransaction_def failed_def io_defs Let_def split: sum.splits)

lemma authenticated_token_lookup:
  "authenticated w tok \<Longrightarrow> token_lookup w = Inr (Some tok) \<and> token_truthy (Some tok)"
  by (auto simp: authenticated_def token_lookup_def split: option.splits)

lemma failed_object:
  "\<not> nullish e \<Longrightarrow>
     failed e =
       Inr \<lparr>success = False, signature = None, recipient = None, lamports = None,
            error = Some (let m = opt_prop (opt_prop (opt_prop e ''response'') ''data'') ''message''
                          in if truthy m then m else opt_prop e ''message'')\<rparr>"
  by (cases e) (simp_all add: failed_def error_text_def Let_def)

lemma failed_nullish:
  "nullish e \<Longrightarrow> failed e = Inl (TypeError e ''response'')"
  by (cases e) (simp_all add: failed_def error_text_def)

lemma failed_Error:
  "failed (Error msg) =
     Inr \<lparr>success = False, signature = None, recipient = None, lamports = None,
          error = Some (JString msg)\<rparr>"
  by (simp add: failed_def error_text_def Error_def)

lemma failed_TypeError:
  "failed (TypeError v p) =
     Inr \<lparr>success = False, signature = None, recipient = None, lamports = None,
          error = Some (opt_prop (TypeError v p) ''message'')\<rparr>"
  by (simp add: failed_def error_text_def TypeError_def Error_def)

lemma failed_AxiosError:
  "failed (AxiosError r) =
     Inr \<lparr>success = False, signature = None, recipient = None, lamports = None,
          error = Some (let m = opt_prop (data r) ''message''
                        in if truthy m then m
                           else JString (''Request failed with status code '' @ decimal (status r)))\<rparr>"
  by (simp add: failed_def error_text_def AxiosError_def response_object_def Let_def)

lemma failed_caught:
  "\<not> nullish e \<Longrightarrow> failed e = Inr (failure_result (caught_message e))"
  by (simp add: failed_object failure_result_def caught_message_def)

lemma failed_status:
  "failed (AxiosError r) =
     Inr (failure_result
            (if truthy (opt_prop (data r) ''message'') then opt_prop (data r) ''message''
             else JString (''Request failed with status code '' @ decimal (status r))))"
  by (simp add: failed_AxiosError failure_result_def Let_def)

lemma failed_no_body:
  "nullish d \<Longrightarrow>
     failed (TypeError d p) =
       Inr (failure_result
              (JString (''Cannot read properties of ''
                        @ (if d = JNull then ''null'' else ''undefined'')
                        @ '' (reading '' @ [CHR 0x27] @ p @ [CHR 0x27] @ '')'')))"
  by (simp add: failed_def error_text_def TypeError_def Error_def failure_result_def)

lemma get_prop_eq:
  "get_prop d p = (if nullish d then Inl (TypeError d p) else Inr (opt_prop d p))"
  by (cases d) simp_all

lemma send_authenticated:
  assumes "authenticated w tok"
  shows "fst (sendTransaction sdk w recipientAddress lamportsArg) =
           (case axios_request (relayer w) (relay_request sdk tok recipientAddress lamportsArg) of
              Inl e \<Rightarrow> failed e
            | Inr resp \<Rightarrow>
                if nullish (data resp) then failed (TypeError (data resp) ''signature'')
                else Inr \<lparr>success = True,
                          signature = Some (opt_prop (data resp) ''signature''),
                          recipient = Some (opt_prop (data resp) ''recipient''),
                          lamports = Some (opt_prop (data resp) ''lamports''),
                          error = None\<rparr>)"
  using authenticated_token_lookup [OF assms]
  by (simp add: sendTransaction_unfold relay_request_def get_prop_eq Let_def split: sum.splits)

section \<open>Evaluation of numbers\<close>

lemmas num_eval = solToLamports_def lamportsToSol_def js_times_def js_divide_def round_binary64_def
  ilog2_def round_half_even_def pow2_def signed_zero_def signed_infinity_def Let_def

lemma floor_rat_numeral_divide:
  "\<lfloor>(numeral a :: rat) / numeral b\<rfloor> = numeral a div numeral b"
  by (metis floor_divide_of_int_eq of_int_numeral)

lemma ceiling_rat_numeral_divide:
  "\<lceil>(numeral a :: rat) / numeral b\<rceil> = - (- numeral a div numeral b)"
  by (metis ceiling_def floor_divide_of_int_eq minus_divide_left of_int_minus of_int_numeral)

lemma bitlen_0: "bitlen 0 = 0"
  by (simp add: bitlen.simps)

lemma bitlen_Suc_0: "bitlen (Suc 0) = Suc 0"
  by (simp add: bitlen.simps)

lemma bitlen_numeral: "bitlen (numeral k) = Suc (bitlen (numeral k div 2))"
  by (subst bitlen.simps) simp

lemmas num_arith = floor_rat_numeral_divide ceiling_rat_numeral_divide
  bitlen_0 bitlen_Suc_0 bitlen_numeral

section \<open>Properties of the rounding\<close>

text \<open>
  The exponent found by \<open>ilog2\<close> is the right one, and the double chosen by
  \<open>round_binary64\<close> is within half a unit in the last place of the exact value.
\<close>

lemma bitlen_bounds: "0 < n \<Longrightarrow> 2 ^ (bitlen n - 1) \<le> n \<and> n < 2 ^ bitlen n"
proof (induction n rule: bitlen.induct)
  case (1 n)
  show ?case
  proof (cases "n div 2 = 0")
    case True
    with "1.prems" have "n = 1" by presburger
    then show ?thesis by (simp add: bitlen_Suc_0)
  next
    case False
    then have pos: "0 < n div 2" by simp
    from "1.prems" have n0: "n \<noteq> 0" by simp
    from "1.IH" [OF n0 pos]
    have lo: "2 ^ (bitlen (n div 2) - 1) \<le> n div 2" and hi: "n div 2 < 2 ^ bitlen (n div 2)"
      by simp_all
    from pos have b1: "0 < bitlen (n div 2)"
      by (subst bitlen.simps) simp
    have eq: "bitlen n = Suc (bitlen (n div 2))"
      using n0 by (subst bitlen.simps) simp
    from b1 have "(2::nat) ^ (bitlen n - 1) = 2 * 2 ^ (bitlen (n div 2) - 1)"
      by (cases "bitlen (n div 2)") (simp_all add: eq)
    also from lo have "\<dots> \<le> 2 * (n div 2)" by simp
    also have "\<dots> \<le> n" by simp
    finally have l: "2 ^ (bitlen n - 1) \<le> n" .
    from hi have "n div 2 + 1 \<le> 2 ^ bitlen (n div 2)" by simp
    then have "2 * (n div 2) + 2 \<le> 2 ^ bitlen n" by (simp add: eq)
    moreover have "n < 2 * (n div 2) + 2" by presburger
    ultimately have "n < 2 ^ bitlen n" by linarith
    with l show ?thesis by simp
  qed
qed

lemma round_half_even_nearest: "\<bar>y - of_int (round_half_even y)\<bar> \<le> 1 / 2"
proof -
  have "of_int \<lfloor>y\<rfloor> \<le> y" "y < of_int \<lfloor>y\<rfloor> + 1" by linarith+
  then show ?thesis
    by (auto simp: round_half_even_def Let_def)
qed

lemma ilog2_bounds:
  assumes "0 < x"
  shows "pow2 (ilog2 x) \<le> x \<and> x < pow2 (ilog2 x + 1)"
proof (cases "1 \<le> x")
  case True
  let ?n = "nat \<lfloor>x\<rfloor>"
  from True have fl: "1 \<le> \<lfloor>x\<rfloor>" by simp
  then have npos: "0 < ?n" by simp
  from bitlen_bounds [OF npos]
  have lo: "2 ^ (bitlen ?n - 1) \<le> ?n" and hi: "?n < 2 ^ bitlen ?n" by simp_all
  from npos have bpos: "0 < bitlen ?n" by (subst bitlen.simps) simp
  have e: "ilog2 x = int (bitlen ?n) - 1" using True by (simp add: ilog2_def)
  have nx: "(of_nat ?n :: rat) = of_int \<lfloor>x\<rfloor>" using fl by simp
  have p1: "pow2 (ilog2 x) = 2 ^ (bitlen ?n - 1)"
    using bpos by (simp add: e pow2_def nat_diff_distrib)
  have p2: "pow2 (ilog2 x + 1) = 2 ^ bitlen ?n"
    by (simp add: e pow2_def)
  from lo have "(of_nat (2 ^ (bitlen ?n - 1)) :: rat) \<le> of_nat ?n"
    by (simp only: of_nat_le_iff)
  then have "(2 :: rat) ^ (bitlen ?n - 1) \<le> of_int \<lfloor>x\<rfloor>" by (simp add: nx)
  also have "\<dots> \<le> x" by simp
  finally have l: "pow2 (ilog2 x) \<le> x" by (simp add: p1)
  from hi have "?n + 1 \<le> 2 ^ bitlen ?n" by linarith
  then have "(of_nat (?n + 1) :: rat) \<le> of_nat (2 ^ bitlen ?n)"
    by (simp only: of_nat_le_iff)
  then have "of_int \<lfloor>x\<rfloor> + 1 \<le> (2 :: rat) ^ bitlen ?n" by (simp add: nx)
  moreover have "x < of_int \<lfloor>x\<rfloor> + 1" by linarith
  ultimately have "x < pow2 (ilog2 x + 1)" by (simp add: p2)
  with l show ?thesis by simp
next
  case False
  let ?y = "1 / x"
  let ?m = "nat (\<lceil>?y\<rceil> - 1)"
  from False assms have y1: "1 < ?y" by simp
  then have c2: "2 \<le> \<lceil>?y\<rceil>" by linarith
  then have mpos: "0 < ?m" by linarith
  from bitlen_bounds [OF mpos]
  have lo: "2 ^ (bitlen ?m - 1) \<le> ?m" and hi: "?m < 2 ^ bitlen ?m" by simp_all
  from mpos have bpos: "0 < bitlen ?m" by (subst bitlen.simps) simp
  have e: "ilog2 x = - int (bitlen ?m)" using False by (simp add: ilog2_def)
  from c2 have k0: "0 \<le> \<lceil>?y\<rceil> - 1" by linarith
  have mx: "(of_nat ?m :: rat) = of_int \<lceil>?y\<rceil> - 1"
    using of_nat_nat [OF k0, where ?'a = rat] by simp
  have p1: "pow2 (ilog2 x) = 1 / 2 ^ bitlen ?m"
    using bpos by (simp add: e pow2_def)
  have p2: "pow2 (ilog2 x + 1) = 1 / 2 ^ (bitlen ?m - 1)"
    using bpos by (auto simp: e pow2_def nat_diff_distrib)
  from hi have "?m + 1 \<le> 2 ^ bitlen ?m" by linarith
  then have "(of_nat (?m + 1) :: rat) \<le> of_nat (2 ^ bitlen ?m)"
    by (simp only: of_nat_le_iff)
  then have "of_int \<lceil>?y\<rceil> \<le> (2 :: rat) ^ bitlen ?m" by (simp add: mx)
  moreover have "?y \<le> of_int \<lceil>?y\<rceil>" by simp
  ultimately have "?y \<le> 2 ^ bitlen ?m" by linarith
  with assms have "1 \<le> x * 2 ^ bitlen ?m" by (simp add: field_simps)
  then have l: "pow2 (ilog2 x) \<le> x" by (simp add: p1 field_simps)
  from lo have "(of_nat (2 ^ (bitlen ?m - 1)) :: rat) \<le> of_nat ?m"
    by (simp only: of_nat_le_iff)
  then have "(2 :: rat) ^ (bitlen ?m - 1) \<le> of_int \<lceil>?y\<rceil> - 1" by (simp add: mx)
  moreover have "of_int \<lceil>?y\<rceil> - 1 < ?y" by linarith
  ultimately have "(2 :: rat) ^ (bitlen ?m - 1) < ?y" by linarith
  with assms have "x * 2 ^ (bitlen ?m - 1) < 1" by (simp add: field_simps)
  then have "x < pow2 (ilog2 x + 1)" unfolding p2 by (simp add: field_simps)
  with l show ?thesis by simp
qed

lemma pow2_pos: "0 < pow2 k"
  by (simp add: pow2_def)

lemma round_binary64_nearest:
  assumes "round_binary64 x = Num r"
  shows "\<bar>r - x\<bar> \<le> pow2 (max (ilog2 \<bar>x\<bar>) (- 1022) - 52) / 2"
proof (cases "x = 0")
  case True
  with assms have "r = 0" by (simp add: round_binary64_def)
  with True pow2_pos [of "max (ilog2 \<bar>x\<bar>) (- 1022) - 52"] show ?thesis by simp
next
  case False
  define p where "p = pow2 (max (ilog2 \<bar>x\<bar>) (- 1022) - 52)"
  define m where "m = round_half_even (\<bar>x\<bar> / p)"
  have ppos: "0 < p" by (simp add: p_def pow2_pos)
  from round_half_even_nearest [of "\<bar>x\<bar> / p"]
  have "\<bar>\<bar>x\<bar> / p - of_int m\<bar> \<le> 1 / 2" by (simp add: m_def)
  then have "\<bar>\<bar>x\<bar> / p - of_int m\<bar> * p \<le> 1 / 2 * p"
    using ppos by (simp only: mult_le_cancel_right_pos)
  moreover have "\<bar>\<bar>x\<bar> / p - of_int m\<bar> * p = \<bar>\<bar>x\<bar> - of_int m * p\<bar>"
  proof -
    have "(\<bar>x\<bar> / p - of_int m) * p = \<bar>x\<bar> - of_int m * p"
      using ppos by (simp add: field_simps)
    then have "\<bar>\<bar>x\<bar> - of_int m * p\<bar> = \<bar>(\<bar>x\<bar> / p - of_int m) * p\<bar>"
      by simp
    also have "\<dots> = \<bar>\<bar>x\<bar> / p - of_int m\<bar> * \<bar>p\<bar>"
      by (rule abs_mult)
    finally show ?thesis using ppos by simp
  qed
  ultimately have near: "\<bar>\<bar>x\<bar> - of_int m * p\<bar> \<le> p / 2" by simp
  from assms False have "r = (if x < 0 then - (of_int m * p) else of_int m * p)"
    by (auto simp: round_binary64_def Let_def p_def m_def split: if_splits)
  with near show ?thesis
    unfolding p_def [symmetric] by (auto simp: abs_if split: if_splits)
qed

section \<open>Unit conversion: the claims\<close>

text \<open>
  Claim C2: converting one SOL to lamports gives the constant 1000000000, and converting
  1000000000 lamports back gives 1.
\<close>

theorem one_sol_is_1e9_lamports:
  "solToLamports (Num 1) = Num 1000000000 \<and> lamportsToSol (Num 1000000000) = Num 1"
  by (simp add: num_eval num_arith)

text \<open>
  Claim C1 says that the two conversions are inverses of each other. They are not: 15
  lamports are \<open>1.5e-8\<close> SOL, the double for that value lies just below the exact
  quotient, its product with \<open>1e9\<close> rounds to \<open>14.999999999999998\<close>, and \<open>Math.floor\<close>
  makes 14 lamports of it. In the same way the double nearest to 8.2 SOL becomes
  8199999999 lamports, one lamport short, and converting those back does not give the
  double of 8.2.
\<close>

theorem roundtrip_loses_a_lamport:
  "lamportsToSol (Num 15) = Num (4533471823554859 / 2 ^ 78)
   \<and> js_times (Num (4533471823554859 / 2 ^ 78)) (Num 1000000000) = Num (15 - 1 / 2 ^ 49)
   \<and> solToLamports (lamportsToSol (Num 15)) = Num 14
   \<and> round_binary64 (82 / 10) = Num (2308094809027379 / 2 ^ 48)
   \<and> solToLamports (Num (2308094809027379 / 2 ^ 48)) = Num 8199999999
   \<and> lamportsToSol (Num 8199999999) \<noteq> Num (2308094809027379 / 2 ^ 48)"
  by (simp add: num_eval num_arith)

section \<open>Errors of the transfer call\<close>

text \<open>
  Claim C3, amended: when the relayer answers a transfer with a status outside 2xx, the
  result of \<open>sendTransaction\<close> is \<open>{success: false, error}\<close>, where \<open>error\<close> is the
  \<open>message\<close> of the response body, unchanged, if that is truthy (a non-empty string,
  for one), and the message of the axios error, \<open>Request failed with status code N\<close>,
  if the body has no \<open>message\<close> or a falsy one.
\<close>

theorem server_message_forwarded:
  assumes "authenticated w tok"
    and "relayer w \<lparr>verb = POST, url = this_relayerUrl sdk @ ''/relay'',
                     headers = [(''Authorization'', ''Bearer '' @ tok)],
                     body = Some (JObject [(''to'', JString recipientAddress),
                                           (''lamports'', JNumber lamportsArg)])\<rparr> = Responded r"
    and "status r < 200 \<or> 300 \<le> status r"
  shows "fst (sendTransaction sdk w recipientAddress lamportsArg) =
           Inr \<lparr>success = False, signature = None, recipient = None, lamports = None,
                error = Some (if truthy (opt_prop (data r) ''message'')
                              then opt_prop (data r) ''message''
                              else JString (''Request failed with status code ''
                                            @ decimal (status r)))\<rparr>"
  using assms(2,3)
  by (auto simp: send_authenticated [OF assms(1)] relay_request_def axios_request_def
      failed_status failure_result_def)

theorem server_message_forwarded_witness:
  "authenticated (signed_in_rejected (JObject [(''message'', JString ''Too many requests'')])) ''tok''
   \<and> fst (sendTransaction sample_sdk
            (signed_in_rejected (JObject [(''message'', JString ''Too many requests'')]))
            ''9xQeWvG816bUx9EPjHmaT23yvVM2ZWbrrpZb9PusVFin'' (Num 100000000)) =
           Inr \<lparr>success = False, signature = None, recipient = None, lamports = None,
                error = Some (JString ''Too many requests'')\<rparr>
   \<and> authenticated (signed_in_rejected (JObject [])) ''tok''
   \<and> fst (sendTransaction sample_sdk (signed_in_rejected (JObject []))
            ''9xQeWvG816bUx9EPjHmaT23yvVM2ZWbrrpZb9PusVFin'' (Num 100000000)) =
           Inr \<lparr>success = False, signature = None, recipient = None, lamports = None,
                error = Some (JString ''Request failed with status code 400'')\<rparr>"
  using server_message_forwarded [of "signed_in_rejected (JObject [(''message'', JString ''Too many requests'')])"
      "''tok''" sample_sdk "''9xQeWvG816bUx9EPjHmaT23yvVM2ZWbrrpZb9PusVFin''" "Num 100000000"
      "\<lparr>status = 400, data = JObject [(''message'', JString ''Too many requests'')]\<rparr>"]
    server_message_forwarded [of "signed_in_rejected (JObject [])"
      "''tok''" sample_sdk "''9xQeWvG816bUx9EPjHmaT23yvVM2ZWbrrpZb9PusVFin''" "Num 100000000"
      "\<lparr>status = 400, data = JObject []\<rparr>"]
  by (simp add: signed_in_rejected_def authenticated_def decimal.simps digit_char_def)

text \<open>
  Claim C3 as stated fails for a message that is falsy: the relayer answers 400 with the
  message \<open>""\<close>, and the result carries the message of the axios error instead.
\<close>

theorem empty_server_message_replaced:
  "opt_prop (JObject [(''message'', JString [])]) ''message'' = JString []
   \<and> fst (sendTransaction sample_sdk (signed_in_rejected (JObject [(''message'', JString [])]))
            ''9xQeWvG816bUx9EPjHmaT23yvVM2ZWbrrpZb9PusVFin'' (Num 100000000)) =
           Inr \<lparr>success = False, signature = None, recipient = None, lamports = None,
                error = Some (JString ''Request failed with status code 400'')\<rparr>"
  by (simp add: sendTransaction_unfold signed_in_rejected_def token_lookup_def axios_request_def
      failed_status failure_result_def decimal.simps digit_char_def Let_def)

section \<open>Failures of the three calls\<close>

lemma no_token_cases:
  "no_token w \<Longrightarrow> (\<exists>e. token_lookup w = Inl e) \<or> (\<exists>t. token_lookup w = Inr t \<and> \<not> token_truthy t)"
  by (auto simp: no_token_def split: sum.splits)







text \<open>
  Claim C5, amended: when nobody is signed in, no request is sent; \<open>sendTransaction\<close>
  returns \<open>{success: false, error: 'User not authenticated'}\<close>, while \<open>getWallet\<close> returns
  \<open>null\<close> and \<open>getTransactionHistory\<close> returns the empty list, each after writing the
  error \<open>User not authenticated\<close> to the console.
\<close>

theorem signed_out_results:
  assumes "currentUser w = None"
  shows "sendTransaction sdk w recipientAddress lamportsArg =
           (Inr \<lparr>success = False, signature = None, recipient = None, lamports = None,
                 error = Some (JString ''User not authenticated'')\<rparr>,
            \<lparr>requests = [], console = []\<rparr>)
       \<and> getWallet sdk w =
           (Inr JNull,
            \<lparr>requests = [],
             console = [(''Error getting wallet:'', Error ''User not authenticated'')]\<rparr>)
       \<and> getTransactionHistory sdk w =
           (Inr (JArray []),
            \<lparr>requests = [],
             console = [(''Error getting transaction history:'',
                         Error ''User not authenticated'')]\<rparr>)"
  using assms
  by (simp add: sendTransaction_unfold getWallet_unfold getTransactionHistory_unfold
      token_lookup_def failed_Error)

theorem signed_out_results_witness:
  "currentUser signed_out = None
   \<and> sendTransaction sample_sdk signed_out ''9xQeWvG816bUx9EPjHmaT23yvVM2ZWbrrpZb9PusVFin'' (Num 100000000) =
           (Inr \<lparr>success = False, signature = None, recipient = None, lamports = None,
                 error = Some (JString ''User not authenticated'')\<rparr>,
            \<lparr>requests = [], console = []\<rparr>)
   \<and> getWallet sample_sdk signed_out =
           (Inr JNull,
            \<lparr>requests = [],
             console = [(''Error getting wallet:'', Error ''User not authenticated'')]\<rparr>)
   \<and> getTransactionHistory sample_sdk signed_out =
           (Inr (JArray []),
            \<lparr>requests = [],
             console = [(''Error getting transaction history:'',
                         Error ''User not authenticated'')]\<rparr>)"
  using signed_out_results [of signed_out sample_sdk
      "''9xQeWvG816bUx9EPjHmaT23yvVM2ZWbrrpZb9PusVFin''" "Num 100000000"]
  by (simp add: signed_out_def)

text \<open>
  Claim C5 as stated fails: what \<open>getTransactionHistory\<close> returns to a caller who is not
  signed in is what it returns to a signed-in user without transfers, and what \<open>getWallet\<close>
  returns is what it returns to a signed-in user whose network is down. Neither value
  tells the caller that nobody is authenticated.
\<close>

theorem signed_out_looks_like_signed_in:
  "currentUser signed_out = None
   \<and> authenticated signed_in_no_history ''tok''
   \<and> authenticated signed_in_offline ''tok''
   \<and> fst (getTransactionHistory sample_sdk signed_out) = Inr (JArray [])
   \<and> fst (getTransactionHistory sample_sdk signed_in_no_history) = Inr (JArray [])
   \<and> fst (getWallet sample_sdk signed_out) = Inr JNull
   \<and> fst (getWallet sample_sdk signed_in_offline) = Inr JNull"
  by (simp add: getTransactionHistory_unfold getWallet_unfold token_lookup_def authenticated_def
      signed_out_def signed_in_no_history_def signed_in_offline_def axios_request_def Let_def)

section \<open>Requests of a signed-in user\<close>

text \<open>
  Claim C6: while a user is signed in and the identity provider hands out a token, each
  of the three calls issues one request, and that request carries the header
  \<open>Authorization: Bearer <token>\<close>.
\<close>

theorem bearer_token_attached:
  assumes "authenticated w tok"
  shows "(\<exists>req. requests (snd (getWallet sdk w)) = [req]
            \<and> headers req = [(''Authorization'', ''Bearer '' @ tok)])
       \<and> (\<exists>req. requests (snd (sendTransaction sdk w recipientAddress lamportsArg)) = [req]
            \<and> headers req = [(''Authorization'', ''Bearer '' @ tok)])
       \<and> (\<exists>req. requests (snd (getTransactionHistory sdk w)) = [req]
            \<and> headers req = [(''Authorization'', ''Bearer '' @ tok)])"
  using authenticated_token_lookup [OF assms]
  by (auto simp: getWallet_unfold sendTransaction_unfold getTransactionHistory_unfold Let_def
      split: sum.splits)

theorem bearer_token_attached_witness:
  "authenticated signed_in_accepting ''tok''
   \<and> (\<exists>req. requests (snd (getWallet sample_sdk signed_in_accepting)) = [req]
            \<and> headers req = [(''Authorization'', ''Bearer tok'')])
   \<and> (\<exists>req. requests (snd (sendTransaction sample_sdk signed_in_accepting
                  ''9xQeWvG816bUx9EPjHmaT23yvVM2ZWbrrpZb9PusVFin'' (Num 100000000))) = [req]
            \<and> headers req = [(''Authorization'', ''Bearer tok'')])
   \<and> (\<exists>req. requests (snd (getTransactionHistory sample_sdk signed_in_accepting)) = [req]
            \<and> headers req = [(''Authorization'', ''Bearer tok'')])"
  using bearer_token_attached [of signed_in_accepting "''tok''" sample_sdk
      "''9xQeWvG816bUx9EPjHmaT23yvVM2ZWbrrpZb9PusVFin''" "Num 100000000"]
  by (simp add: authenticated_def signed_in_accepting_def)

text \<open>
  Claim C7: the client checks neither the amount nor the recipient. For every recipient
  string and every number of lamports, a signed-in \<open>sendTransaction\<close> posts the pair to
  \<open>/relay\<close> as it is, and reports success whenever the relayer answers 200 with an
  object. The sample transfer is 16 SOL, above the documented maximum of 15 SOL.
\<close>

theorem transfer_forwarded_unchecked:
  assumes "authenticated w tok"
  shows "requests (snd (sendTransaction sdk w recipientAddress lamportsArg)) =
           [\<lparr>verb = POST, url = this_relayerUrl sdk @ ''/relay'',
             headers = [(''Authorization'', ''Bearer '' @ tok)],
             body = Some (JObject [(''to'', JString recipientAddress),
                                   (''lamports'', JNumber lamportsArg)])\<rparr>]
       \<and> (\<forall>kvs. relayer w \<lparr>verb = POST, url = this_relayerUrl sdk @ ''/relay'',
                     headers = [(''Authorization'', ''Bearer '' @ tok)],
                     body = Some (JObject [(''to'', JString recipientAddress),
                                           (''lamports'', JNumber lamportsArg)])\<rparr>
                  = Responded \<lparr>status = 200, data = JObject kvs\<rparr>
            \<longrightarrow> (\<exists>r. fst (sendTransaction sdk w recipientAddress lamportsArg) = Inr r
                      \<and> success_shape r))"
  using authenticated_token_lookup [OF assms]
  by (auto simp: sendTransaction_unfold axios_request_def success_shape_def Let_def
      split: sum.splits)

theorem transfer_forwarded_unchecked_witness:
  "authenticated signed_in_accepting ''tok''
   \<and> requests (snd (sendTransaction sample_sdk signed_in_accepting
          ''9xQeWvG816bUx9EPjHmaT23yvVM2ZWbrrpZb9PusVFin'' (Num 16000000000))) =
           [\<lparr>verb = POST, url = ''https://relayer-backend.onrender.com/relay'',
             headers = [(''Authorization'', ''Bearer tok'')],
             body = Some (JObject [(''to'', JString ''9xQeWvG816bUx9EPjHmaT23yvVM2ZWbrrpZb9PusVFin''),
                                   (''lamports'', JNumber (Num 16000000000))])\<rparr>]
   \<and> (\<exists>r. fst (sendTransaction sample_sdk signed_in_accepting
          ''9xQeWvG816bUx9EPjHmaT23yvVM2ZWbrrpZb9PusVFin'' (Num 16000000000)) = Inr r
            \<and> success_shape r)"
  using transfer_forwarded_unchecked [of signed_in_accepting "''tok''" sample_sdk
      "''9xQeWvG816bUx9EPjHmaT23yvVM2ZWbrrpZb9PusVFin''" "Num 16000000000"]
  by (simp add: authenticated_def signed_in_accepting_def sample_sdk_def sample_config_def
      constructor_def default_relayerUrl_def)

section \<open>One round trip per call\<close>

lemma token_lookup_cong: "currentUser w' = currentUser w \<Longrightarrow> token_lookup w' = token_lookup w"
  by (simp add: token_lookup_def)

lemma axios_request_cong:
  "relayer w' req = relayer w req \<Longrightarrow> axios_request (relayer w') req = axios_request (relayer w) req"
  by (simp add: axios_request_def)

lemma getWallet_determined:
  assumes "currentUser w' = currentUser w"
    and "\<forall>req \<in> set (requests (snd (getWallet sdk w))). relayer w' req = relayer w req"
  shows "getWallet sdk w' = getWallet sdk w"
proof (cases "token_lookup w")
  case (Inl e)
  with token_lookup_cong [OF assms(1)] show ?thesis
    by (simp add: getWallet_unfold)
next
  case (Inr token)
  show ?thesis
  proof (cases "token_truthy token")
    case False
    with Inr token_lookup_cong [OF assms(1)] show ?thesis
      by (simp add: getWallet_unfold)
  next
    case True
    let ?req = "\<lparr>verb = GET, url = this_relayerUrl sdk @ ''/me'',
                 headers = [(''Authorization'', bearer token)], body = None\<rparr>"
    from Inr True have "requests (snd (getWallet sdk w)) = [?req]"
      by (simp add: getWallet_unfold Let_def split: sum.splits)
    with assms(2) have "relayer w' ?req = relayer w ?req" by simp
    from axios_request_cong [OF this] Inr True token_lookup_cong [OF assms(1)] show ?thesis
      by (simp add: getWallet_unfold Let_def)
  qed
qed

lemma getTransactionHistory_determined:
  assumes "currentUser w' = currentUser w"
    and "\<forall>req \<in> set (requests (snd (getTransactionHistory sdk w))). relayer w' req = relayer w req"
  shows "getTransactionHistory sdk w' = getTransactionHistory sdk w"
proof (cases "token_lookup w")
  case (Inl e)
  with token_lookup_cong [OF assms(1)] show ?thesis
    by (simp add: getTransactionHistory_unfold)
next
  case (Inr token)
  show ?thesis
  proof (cases "token_truthy token")
    case False
    with Inr token_lookup_cong [OF assms(1)] show ?thesis
      by (simp add: getTransactionHistory_unfold)
  next
    case True
    let ?req = "\<lparr>verb = GET, url = this_relayerUrl sdk @ ''/transactions'',
                 headers = [(''Authorization'', bearer token)], body = None\<rparr>"
    from Inr True have "requests (snd (getTransactionHistory sdk w)) = [?req]"
      by (simp add: getTransactionHistory_unfold Let_def split: sum.splits)
    with assms(2) have "relayer w' ?req = relayer w ?req" by simp
    from axios_request_cong [OF this] Inr True token_lookup_cong [OF assms(1)] show ?thesis
      by (simp add: getTransactionHistory_unfold Let_def)
  qed
qed

lemma sendTransaction_determined:
  assumes "currentUser w' = currentUser w"
    and "\<forall>req \<in> set (requests (snd (sendTransaction sdk w recipientAddress lamportsArg))).
           relayer w' req = relayer w req"
  shows "sendTransaction sdk w' recipientAddress lamportsArg =
         sendTransaction sdk w recipientAddress lamportsArg"
proof (cases "token_lookup w")
  case (Inl e)
  with token_lookup_cong [OF assms(1)] show ?thesis
    by (simp add: sendTransaction_unfold)
next
  case (Inr token)
  show ?thesis
  proof (cases "token_truthy token")
    case False
    with Inr token_lookup_cong [OF assms(1)] show ?thesis
      by (simp add: sendTransaction_unfold)
  next
    case True
    let ?req = "\<lparr>verb = POST, url = this_relayerUrl sdk @ ''/relay'',
                 headers = [(''Authorization'', bearer token)],
                 body = Some (JObject [(''to'', JString recipientAddress),
                                       (''lamports'', JNumber lamportsArg)])\<rparr>"
    from Inr True have "requests (snd (sendTransaction sdk w recipientAddress lamportsArg)) = [?req]"
      by (simp add: sendTransaction_unfold Let_def split: sum.splits)
    with assms(2) have "relayer w' ?req = relayer w ?req" by simp
    from axios_request_cong [OF this] Inr True token_lookup_cong [OF assms(1)] show ?thesis
      by (simp add: sendTransaction_unfold Let_def)
  qed
qed

lemma at_most_one_request:
  "length (requests (snd (getWallet sdk w))) \<le> 1"
  "length (requests (snd (sendTransaction sdk w recipientAddress lamportsArg))) \<le> 1"
  "length (requests (snd (getTransactionHistory sdk w))) \<le> 1"
  by (simp_all add: getWallet_unfold sendTransaction_unfold getTransactionHistory_unfold Let_def
      split: sum.splits)

text \<open>
  Claim C8: each of the three calls issues at most one HTTP request, and its outcome
  (the value returned and the trace left) is determined by the signed-in user and the
  answer to that one request: an environment that differs anywhere else gives the same
  outcome. There is no second attempt after a failure.
\<close>

theorem single_round_trip:
  "length (requests (snd (getWallet sdk w))) \<le> 1
   \<and> length (requests (snd (sendTransaction sdk w recipientAddress lamportsArg))) \<le> 1
   \<and> length (requests (snd (getTransactionHistory sdk w))) \<le> 1
   \<and> (currentUser w' = currentUser w
        \<and> (\<forall>req \<in> set (requests (snd (getWallet sdk w))). relayer w' req = relayer w req)
       \<longrightarrow> getWallet sdk w' = getWallet sdk w)
   \<and> (currentUser w' = currentUser w
        \<and> (\<forall>req \<in> set (requests (snd (sendTransaction sdk w recipientAddress lamportsArg))).
              relayer w' req = relayer w req)
       \<longrightarrow> sendTransaction sdk w' recipientAddress lamportsArg =
           sendTransaction sdk w recipientAddress lamportsArg)
   \<and> (currentUser w' = currentUser w
        \<and> (\<forall>req \<in> set (requests (snd (getTransactionHistory sdk w))). relayer w' req = relayer w req)
       \<longrightarrow> getTransactionHistory sdk w' = getTransactionHistory sdk w)"
  using at_most_one_request
    getWallet_determined [of w' w sdk]
    sendTransaction_determined [of w' w sdk recipientAddress lamportsArg]
    getTransactionHistory_determined [of w' w sdk]
  by blast

lemma sample_requests:
  "requests (snd (getWallet sample_sdk signed_in_offline)) =
     [\<lparr>verb = GET, url = ''https://relayer-backend.onrender.com/me'',
       headers = [(''Authorization'', ''Bearer tok'')], body = None\<rparr>]"
  "requests (snd (sendTransaction sample_sdk signed_in_offline
       ''9xQeWvG816bUx9EPjHmaT23yvVM2ZWbrrpZb9PusVFin'' (Num 100000000))) =
     [\<lparr>verb = POST, url = ''https://relayer-backend.onrender.com/relay'',
       headers = [(''Authorization'', ''Bearer tok'')],
       body = Some (JObject [(''to'', JString ''9xQeWvG816bUx9EPjHmaT23yvVM2ZWbrrpZb9PusVFin''),
                             (''lamports'', JNumber (Num 100000000))])\<rparr>]"
  "requests (snd (getTransactionHistory sample_sdk signed_in_offline)) =
     [\<lparr>verb = GET, url = ''https://relayer-backend.onrender.com/transactions'',
       headers = [(''Authorization'', ''Bearer tok'')], body = None\<rparr>]"
  by (simp_all add: getWallet_unfold sendTransaction_unfold getTransactionHistory_unfold
      token_lookup_def signed_in_offline_def sample_sdk_def sample_config_def constructor_def
      default_relayerUrl_def axios_request_def Let_def)

theorem single_round_trip_witness:
  "currentUser signed_in_offline_elsewhere = currentUser signed_in_offline
   \<and> relayer signed_in_offline_elsewhere \<noteq> relayer signed_in_offline
   \<and> length (requests (snd (getWallet sample_sdk signed_in_offline))) = 1
   \<and> length (requests (snd (sendTransaction sample_sdk signed_in_offline
         ''9xQeWvG816bUx9EPjHmaT23yvVM2ZWbrrpZb9PusVFin'' (Num 100000000)))) = 1
   \<and> length (requests (snd (getTransactionHistory sample_sdk signed_in_offline))) = 1
   \<and> getWallet sample_sdk signed_in_offline_elsewhere = getWallet sample_sdk signed_in_offline
   \<and> sendTransaction sample_sdk signed_in_offline_elsewhere
         ''9xQeWvG816bUx9EPjHmaT23yvVM2ZWbrrpZb9PusVFin'' (Num 100000000) =
       sendTransaction sample_sdk signed_in_offline
         ''9xQeWvG816bUx9EPjHmaT23yvVM2ZWbrrpZb9PusVFin'' (Num 100000000)
   \<and> getTransactionHistory sample_sdk signed_in_offline_elsewhere =
       getTransactionHistory sample_sdk signed_in_offline"
proof -
  have differ: "relayer signed_in_offline_elsewhere \<noteq> relayer signed_in_offline"
  proof
    assume "relayer signed_in_offline_elsewhere = relayer signed_in_offline"
    then have "relayer signed_in_offline_elsewhere
                 \<lparr>verb = GET, url = ''https://example.org/'', headers = [], body = None\<rparr>
             = relayer signed_in_offline
                 \<lparr>verb = GET, url = ''https://example.org/'', headers = [], body = None\<rparr>"
      by simp
    then show False
      by (simp add: signed_in_offline_elsewhere_def signed_in_offline_def)
  qed
  show ?thesis
    using differ sample_requests
      single_round_trip [of sample_sdk signed_in_offline
        "''9xQeWvG816bUx9EPjHmaT23yvVM2ZWbrrpZb9PusVFin''" "Num 100000000"
        signed_in_offline_elsewhere]
    by (simp add: signed_in_offline_elsewhere_def signed_in_offline_def)
qed

section \<open>The result of a transfer\<close>

lemma token_lookup_authenticated:
  "token_lookup w = Inr t \<Longrightarrow> token_truthy t \<Longrightarrow> \<exists>tok. authenticated w tok"
  by (cases t) (auto simp: token_lookup_def authenticated_def split: option.splits sum.splits)

lemma caught_message_plain: "plain_error e \<Longrightarrow> caught_message e = opt_prop e ''message''"
  by (cases "opt_prop e ''response''") (simp_all add: plain_error_def caught_message_def)

lemma failed_plain:
  assumes "plain_error e"
  shows "\<exists>r. failed e = Inr r \<and> is_TransactionResult r"
proof -
  from assms have "\<not> nullish e" by (simp add: plain_error_def)
  then have "failed e = Inr (failure_result (caught_message e))" by (rule failed_caught)
  moreover from assms have "optional_string (Some (caught_message e))"
    by (simp add: caught_message_plain) (simp add: plain_error_def)
  ultimately show ?thesis
    by (simp add: failure_result_def is_TransactionResult_def)
qed

lemma failed_shape:
  "failed e = Inr r \<Longrightarrow>
     \<not> success r \<and> signature r = None \<and> recipient r = None \<and> lamports r = None"
  by (auto simp: failed_def split: sum.splits)

lemma failed_typed_status:
  assumes "typed_response r" and "status r < 200 \<or> 300 \<le> status r"
  shows "\<exists>res. failed (AxiosError r) = Inr res \<and> is_TransactionResult res"
  using assms
  by (cases "opt_prop (data r) ''message''")
     (auto simp: failed_status failure_result_def is_TransactionResult_def typed_response_def)

text \<open>
  Claim C9, amended. \<open>sendTransaction\<close> returns a result and throws nothing whenever
  neither \<open>getIdToken\<close> nor the request rejects with \<open>undefined\<close> or \<open>null\<close>; a
  successful result has no \<open>error\<close> field, and a failed one has no \<open>signature\<close>,
  \<open>recipient\<close> or \<open>lamports\<close> field. The fields are copied unchecked from the response
  and from the value caught, so the result is of the declared type \<open>TransactionResult\<close>
  whenever those fit the declared types: the values rejected are plain errors and the
  relayer's response is a typed one.
\<close>

theorem sendTransaction_total:
  "((\<forall>e. token_lookup w = Inl e \<longrightarrow> \<not> nullish e)
      \<and> (\<forall>tok e. authenticated w tok
             \<and> relayer w (relay_request sdk tok recipientAddress lamportsArg) = Rejected e
           \<longrightarrow> \<not> nullish e)
    \<longrightarrow> (\<exists>r. fst (sendTransaction sdk w recipientAddress lamportsArg) = Inr r
            \<and> (success r \<longrightarrow> error r = None)
            \<and> (\<not> success r \<longrightarrow> signature r = None \<and> recipient r = None \<and> lamports r = None)))
   \<and> ((\<forall>e. token_lookup w = Inl e \<longrightarrow> plain_error e)
      \<and> (\<forall>tok. authenticated w tok
           \<longrightarrow> (case relayer w (relay_request sdk tok recipientAddress lamportsArg) of
                 Rejected e \<Rightarrow> plain_error e
               | Responded r \<Rightarrow> typed_response r))
    \<longrightarrow> (\<exists>r. fst (sendTransaction sdk w recipientAddress lamportsArg) = Inr r
            \<and> is_TransactionResult r))"
proof (intro conjI impI)
  assume h: "(\<forall>e. token_lookup w = Inl e \<longrightarrow> \<not> nullish e)
      \<and> (\<forall>tok e. authenticated w tok
             \<and> relayer w (relay_request sdk tok recipientAddress lamportsArg) = Rejected e
           \<longrightarrow> \<not> nullish e)"
  let ?goal = "\<exists>r. fst (sendTransaction sdk w recipientAddress lamportsArg) = Inr r
            \<and> (success r \<longrightarrow> error r = None)
            \<and> (\<not> success r \<longrightarrow> signature r = None \<and> recipient r = None \<and> lamports r = None)"
  show ?goal
  proof (cases "token_lookup w")
    case (Inl e)
    with h have "\<not> nullish e" by simp
    with Inl show ?thesis
      by (simp add: sendTransaction_unfold failed_caught failure_result_def)
  next
    case (Inr t)
    show ?thesis
    proof (cases "token_truthy t")
      case False
      with Inr show ?thesis by (simp add: sendTransaction_unfold failed_Error)
    next
      case True
      from token_lookup_authenticated [OF Inr True] obtain tok where a: "authenticated w tok" ..
      let ?req = "relay_request sdk tok recipientAddress lamportsArg"
      show ?thesis
      proof (cases "relayer w ?req")
        case (Rejected e)
        with h a have "\<not> nullish e" by blast
        with Rejected show ?thesis
          by (simp add: send_authenticated [OF a] axios_request_def failed_caught
              failure_result_def)
      next
        case (Responded r)
        then show ?thesis
          by (simp add: send_authenticated [OF a] axios_request_def failed_status
              failed_no_body failure_result_def)
      qed
    qed
  qed
next
  assume h: "(\<forall>e. token_lookup w = Inl e \<longrightarrow> plain_error e)
      \<and> (\<forall>tok. authenticated w tok
           \<longrightarrow> (case relayer w (relay_request sdk tok recipientAddress lamportsArg) of
                 Rejected e \<Rightarrow> plain_error e
               | Responded r \<Rightarrow> typed_response r))"
  show "\<exists>r. fst (sendTransaction sdk w recipientAddress lamportsArg) = Inr r
            \<and> is_TransactionResult r"
  proof (cases "token_lookup w")
    case (Inl e)
    with h have "plain_error e" by simp
    from failed_plain [OF this] Inl show ?thesis
      by (simp add: sendTransaction_unfold)
  next
    case (Inr t)
    show ?thesis
    proof (cases "token_truthy t")
      case False
      with Inr show ?thesis
        by (simp add: sendTransaction_unfold failed_Error is_TransactionResult_def)
    next
      case True
      from token_lookup_authenticated [OF Inr True] obtain tok where a: "authenticated w tok" ..
      let ?req = "relay_request sdk tok recipientAddress lamportsArg"
      show ?thesis
      proof (cases "relayer w ?req")
        case (Rejected e)
        with h a have "plain_error e" by (auto split: transport_outcome.splits)
        from failed_plain [OF this] Rejected show ?thesis
          by (simp add: send_authenticated [OF a] axios_request_def)
      next
        case (Responded r)
        with h a have typed: "typed_response r" by (auto split: transport_outcome.splits)
        show ?thesis
        proof (cases "200 \<le> status r \<and> status r < 300")
          case False
          then have out: "status r < 200 \<or> 300 \<le> status r" by auto
          from failed_typed_status [OF typed out] Responded out show ?thesis
            by (auto simp: send_authenticated [OF a] axios_request_def)
        next
          case True
          with typed Responded show ?thesis
            by (auto simp: send_authenticated [OF a] axios_request_def failed_no_body
                failure_result_def is_TransactionResult_def typed_response_def)
        qed
      qed
    qed
  qed
qed

text \<open>
  The samples: a relayer that accepts the transfer and echoes it, and a network that is
  down.
\<close>

theorem sendTransaction_total_witness:
  "token_lookup signed_in_accepting = Inr (Some ''tok'')
   \<and> relayer signed_in_accepting
        (relay_request sample_sdk ''tok'' ''9xQeWvG816bUx9EPjHmaT23yvVM2ZWbrrpZb9PusVFin''
           (Num 100000000))
       = Responded \<lparr>status = 200,
                     data = JObject [(''signature'', JString ''sig''),
                                     (''recipient'', JString ''9xQeWvG816bUx9EPjHmaT23yvVM2ZWbrrpZb9PusVFin''),
                                     (''lamports'', JNumber (Num 100000000))]\<rparr>
   \<and> (\<exists>r. fst (sendTransaction sample_sdk signed_in_accepting
            ''9xQeWvG816bUx9EPjHmaT23yvVM2ZWbrrpZb9PusVFin'' (Num 100000000)) = Inr r
        \<and> success r \<and> error r = None \<and> is_TransactionResult r)
   \<and> token_lookup signed_in_offline = Inr (Some ''tok'')
   \<and> relayer signed_in_offline
        (relay_request sample_sdk ''tok'' ''9xQeWvG816bUx9EPjHmaT23yvVM2ZWbrrpZb9PusVFin''
           (Num 100000000))
       = Rejected (Error ''Network Error'')
   \<and> (\<exists>r. fst (sendTransaction sample_sdk signed_in_offline
            ''9xQeWvG816bUx9EPjHmaT23yvVM2ZWbrrpZb9PusVFin'' (Num 100000000)) = Inr r
        \<and> \<not> success r \<and> signature r = None \<and> recipient r = None \<and> lamports r = None
        \<and> is_TransactionResult r)"
proof -
  let ?to = "''9xQeWvG816bUx9EPjHmaT23yvVM2ZWbrrpZb9PusVFin''"
  let ?amount = "Num 100000000"
  let ?ok = "\<lparr>success = True, signature = Some (JString ''sig''),
              recipient = Some (JString ?to), lamports = Some (JNumber ?amount),
              error = None\<rparr>"
  have lookups:
    "token_lookup signed_in_accepting = Inr (Some ''tok'')"
    "token_lookup signed_in_offline = Inr (Some ''tok'')"
    by (simp_all add: token_lookup_def signed_in_accepting_def signed_in_offline_def)
  have answers:
    "relayer signed_in_accepting (relay_request sample_sdk ''tok'' ?to ?amount)
       = Responded \<lparr>status = 200,
                     data = JObject [(''signature'', JString ''sig''),
                                     (''recipient'', JString ?to),
                                     (''lamports'', JNumber ?amount)]\<rparr>"
    "relayer signed_in_offline (relay_request sample_sdk ''tok'' ?to ?amount)
       = Rejected (Error ''Network Error'')"
    by (simp_all add: signed_in_accepting_def signed_in_offline_def relay_request_def)
  have only_tok:
    "\<And>tok. authenticated signed_in_accepting tok \<Longrightarrow> tok = ''tok''"
    "\<And>tok. authenticated signed_in_offline tok \<Longrightarrow> tok = ''tok''"
    by (simp_all add: authenticated_def signed_in_accepting_def signed_in_offline_def)
  have plain: "plain_error (Error ''Network Error'')"
    by (simp add: plain_error_def Error_def)
  then have not_null: "\<not> nullish (Error ''Network Error'')"
    by (simp add: plain_error_def)
  have typed:
    "typed_response \<lparr>status = 200,
                     data = JObject [(''signature'', JString ''sig''),
                                     (''recipient'', JString ?to),
                                     (''lamports'', JNumber ?amount)]\<rparr>"
    by (simp add: typed_response_def)
  have ev_ok: "fst (sendTransaction sample_sdk signed_in_accepting ?to ?amount) = Inr ?ok"
    using lookups(1) answers(1)
    by (simp add: sendTransaction_unfold axios_request_def relay_request_def Let_def)
  have ev_off: "\<exists>r. fst (sendTransaction sample_sdk signed_in_offline ?to ?amount) = Inr r
                    \<and> \<not> success r"
    using lookups(2) answers(2)
    by (simp add: sendTransaction_unfold axios_request_def relay_request_def failed_Error Let_def)
  note total_ok = sendTransaction_total [of signed_in_accepting sample_sdk ?to ?amount]
  note total_off = sendTransaction_total [of signed_in_offline sample_sdk ?to ?amount]
  have h1_ok: "(\<forall>e. token_lookup signed_in_accepting = Inl e \<longrightarrow> \<not> nullish e)
      \<and> (\<forall>tok e. authenticated signed_in_accepting tok
             \<and> relayer signed_in_accepting (relay_request sample_sdk tok ?to ?amount) = Rejected e
           \<longrightarrow> \<not> nullish e)"
    using lookups(1) answers(1) only_tok(1) by auto
  have h2_ok: "(\<forall>e. token_lookup signed_in_accepting = Inl e \<longrightarrow> plain_error e)
      \<and> (\<forall>tok. authenticated signed_in_accepting tok
           \<longrightarrow> (case relayer signed_in_accepting (relay_request sample_sdk tok ?to ?amount) of
                 Rejected e \<Rightarrow> plain_error e
               | Responded r \<Rightarrow> typed_response r))"
    using lookups(1) answers(1) only_tok(1) typed by auto
  have h1_off: "(\<forall>e. token_lookup signed_in_offline = Inl e \<longrightarrow> \<not> nullish e)
      \<and> (\<forall>tok e. authenticated signed_in_offline tok
             \<and> relayer signed_in_offline (relay_request sample_sdk tok ?to ?amount) = Rejected e
           \<longrightarrow> \<not> nullish e)"
    using lookups(2) answers(2) only_tok(2) not_null by auto
  have h2_off: "(\<forall>e. token_lookup signed_in_offline = Inl e \<longrightarrow> plain_error e)
      \<and> (\<forall>tok. authenticated signed_in_offline tok
           \<longrightarrow> (case relayer signed_in_offline (relay_request sample_sdk tok ?to ?amount) of
                 Rejected e \<Rightarrow> plain_error e
               | Responded r \<Rightarrow> typed_response r))"
    using lookups(2) answers(2) only_tok(2) plain by auto
  from total_ok h1_ok h2_ok ev_ok
  have ok: "\<exists>r. fst (sendTransaction sample_sdk signed_in_accepting ?to ?amount) = Inr r
        \<and> success r \<and> error r = None \<and> is_TransactionResult r"
    by auto
  from total_off h1_off h2_off ev_off
  have off: "\<exists>r. fst (sendTransaction sample_sdk signed_in_offline ?to ?amount) = Inr r
        \<and> \<not> success r \<and> signature r = None \<and> recipient r = None \<and> lamports r = None
        \<and> is_TransactionResult r"
    by auto
  from lookups answers ok off show ?thesis by blast
qed

text \<open>
  Claim C9 as stated fails twice. When \<open>getIdToken\<close> rejects with \<open>undefined\<close>, the
  \<open>catch\<close> block reads \<open>error.response\<close> and \<open>sendTransaction\<close> rejects with the
  \<open>TypeError\<close> of that read. And when the relayer answers 400 with the message 42, the
  \<open>error\<close> of the result is the number 42, which is no \<open>TransactionResult\<close>.
\<close>

theorem sendTransaction_throws_or_mistyped:
  "token_lookup (token_rejected JUndefined) = Inl JUndefined
   \<and> fst (sendTransaction sample_sdk (token_rejected JUndefined)
            ''9xQeWvG816bUx9EPjHmaT23yvVM2ZWbrrpZb9PusVFin'' (Num 100000000))
       = Inl (JObject [(''message'',
                        JString (''Cannot read properties of undefined (reading ''
                                 @ [CHR 0x27] @ ''response'' @ [CHR 0x27] @ '')''))])
   \<and> fst (sendTransaction sample_sdk
            (signed_in_rejected (JObject [(''message'', JNumber (Num 42))]))
            ''9xQeWvG816bUx9EPjHmaT23yvVM2ZWbrrpZb9PusVFin'' (Num 100000000))
       = Inr \<lparr>success = False, signature = None, recipient = None, lamports = None,
              error = Some (JNumber (Num 42))\<rparr>
   \<and> \<not> is_TransactionResult
          \<lparr>success = False, signature = None, recipient = None, lamports = None,
           error = Some (JNumber (Num 42))\<rparr>"
  by (simp add: sendTransaction_unfold token_lookup_def token_rejected_def signed_in_rejected_def
      axios_request_def failed_status failure_result_def failed_nullish
      TypeError_def Error_def is_TransactionResult_def Let_def)

section \<open>The relayer's address\<close>

text \<open>
  Claim C10: a configuration without \<open>relayerUrl\<close>, or with the empty string, makes the
  constructor use \<open>https://relayer-backend.onrender.com\<close>; any other \<open>relayerUrl\<close> is
  kept; and the three calls send their requests to \<open>/me\<close>, \<open>/relay\<close> and
  \<open>/transactions\<close> under the address of the object.
\<close>

theorem relayer_endpoint:
  "((relayerUrl config = None \<or> relayerUrl config = Some [])
      \<longrightarrow> this_relayerUrl (constructor config) = ''https://relayer-backend.onrender.com'')
   \<and> (\<forall>u. relayerUrl config = Some u \<and> u \<noteq> [] \<longrightarrow> this_relayerUrl (constructor config) = u)
   \<and> (\<forall>req \<in> set (requests (snd (getWallet sdk w))). url req = this_relayerUrl sdk @ ''/me'')
   \<and> (\<forall>req \<in> set (requests (snd (sendTransaction sdk w recipientAddress lamportsArg))).
         url req = this_relayerUrl sdk @ ''/relay'')
   \<and> (\<forall>req \<in> set (requests (snd (getTransactionHistory sdk w))).
         url req = this_relayerUrl sdk @ ''/transactions'')"
  by (simp add: constructor_def default_relayerUrl_def getWallet_unfold sendTransaction_unfold
      getTransactionHistory_unfold Let_def split: sum.splits)

theorem relayer_endpoint_witness:
  "relayerUrl sample_config = None
   \<and> this_relayerUrl (constructor sample_config) = ''https://relayer-backend.onrender.com''
   \<and> relayerUrl custom_config = Some ''http://localhost:3000''
   \<and> this_relayerUrl (constructor custom_config) = ''http://localhost:3000''
   \<and> map url (requests (snd (getWallet (constructor sample_config) signed_in_offline))) =
        [''https://relayer-backend.onrender.com/me'']
   \<and> map url (requests (snd (sendTransaction (constructor sample_config) signed_in_offline
         ''9xQeWvG816bUx9EPjHmaT23yvVM2ZWbrrpZb9PusVFin'' (Num 100000000)))) =
        [''https://relayer-backend.onrender.com/relay'']
   \<and> map url (requests (snd (getTransactionHistory (constructor sample_config) signed_in_offline))) =
        [''https://relayer-backend.onrender.com/transactions'']"
  using relayer_endpoint [of sample_config "constructor sample_config" signed_in_offline
      "''9xQeWvG816bUx9EPjHmaT23yvVM2ZWbrrpZb9PusVFin''" "Num 100000000"]
    relayer_endpoint [of custom_config "constructor sample_config" signed_in_offline
      "''9xQeWvG816bUx9EPjHmaT23yvVM2ZWbrrpZb9PusVFin''" "Num 100000000"]
    sample_requests
  by (simp add: sample_config_def custom_config_def sample_sdk_def)

end
